theory Spec2Isabelle
  imports Main
begin

section \<open>Artifact Age Estimator: history store and image asset store\<close>

text \<open>
  A shallow embedding of \<^verbatim>\<open>src/myproject/app.py\<close>: the helper functions
  \<^verbatim>\<open>load_history\<close>, \<^verbatim>\<open>save_history\<close>, \<^verbatim>\<open>safe_ext\<close>,
  \<^verbatim>\<open>save_uploaded_image_locally\<close>, \<^verbatim>\<open>delete_image_file\<close>, and the bodies of
  the three button handlers of the script (Delete, Clear All, Estimate Artifact Age).
  Effects are explicit: the disk, the session state and the messages shown to the
  user are values that each function takes and returns; an exception is a value of
  \<open>py_error\<close> on the left of a sum.
\<close>

subsection \<open>Python values\<close>

text \<open>
  What \<^verbatim>\<open>json.load\<close> can return. Floats are never inspected by the program, so
  their type is left unspecified. A Python \<^verbatim>\<open>dict\<close> is an association list.
\<close>

typedecl pyfloat

datatype json =
    JNull
  | JBool bool
  | JInt int
  | JFloat pyfloat
  | JStr string
  | JArr "json list"
  | JObj "(string \<times> json) list"

type_synonym pydict = "(string \<times> json) list"

text \<open>\<^verbatim>\<open>d.get(key, default)\<close>.\<close>

definition dict_get :: "pydict \<Rightarrow> string \<Rightarrow> json \<Rightarrow> json" where
  "dict_get d k dflt = (case map_of d k of Some v \<Rightarrow> v | None \<Rightarrow> dflt)"

subsection \<open>Exceptions\<close>

text \<open>
  An exception is its class and the text \<^verbatim>\<open>str(e)\<close>. All classes listed are
  subclasses of \<^verbatim>\<open>Exception\<close>, which is what the \<^verbatim>\<open>except Exception\<close>
  clauses of the source catch.
\<close>

datatype exn_class =
    AuthenticationError
  | RateLimitError
  | FileNotFoundError
  | PermissionError
  | IsADirectoryError
  | OSError
  | JSONDecodeError
  | UnicodeDecodeError
  | UnicodeEncodeError
  | IndexError
  | OtherException

datatype py_error = Raised exn_class string

subsection \<open>The disk\<close>

text \<open>
  The disk maps a path to the bytes of the file there. \<open>rm_err\<close> gives, for a
  path, the exception that \<^verbatim>\<open>os.remove\<close> raises on it (no permission, a
  directory, ...), if any. \<open>history_open_err\<close> is the exception that opening the
  history document for writing raises (a read-only document, no permission), if any.
  Opening an existing document for reading and writing an image are taken to succeed.
  A path names one file: the disk does not resolve two spellings of one path.
\<close>

record fs =
  files :: "string \<rightharpoonup> string"
  rm_err :: "string \<rightharpoonup> py_error"
  history_open_err :: "py_error option"

definition os_path_exists :: "fs \<Rightarrow> string \<Rightarrow> bool" where
  "os_path_exists d p = (files d p \<noteq> None)"

definition os_remove :: "string \<Rightarrow> fs \<Rightarrow> py_error + fs" where
  "os_remove p d =
     (case files d p of
        None \<Rightarrow> Inl (Raised FileNotFoundError p)
      | Some _ \<Rightarrow>
          (case rm_err d p of
             Some e \<Rightarrow> Inl e
           | None \<Rightarrow> Inr (d\<lparr>files := (files d)(p := None)\<rparr>)))"

definition write_file :: "string \<Rightarrow> string \<Rightarrow> fs \<Rightarrow> fs" where
  "write_file p bytes d = d\<lparr>files := (files d)(p \<mapsto> bytes)\<rparr>"

subsection \<open>The json library\<close>

text \<open>
  \<^verbatim>\<open>json.load\<close> and \<^verbatim>\<open>json.dump\<close> belong to the Python library, not to the
  program: they are parameters of the model. A decoder maps the bytes of a document,
  read as UTF-8, to the value they parse to, or to the exception raised on the way.
  An encoder maps a value to the bytes written for it
  (\<^verbatim>\<open>ensure_ascii=False, indent=2\<close>, UTF-8), or, when \<^verbatim>\<open>json.dump\<close> raises
  on the way (a string that UTF-8 cannot encode, a full disk), to the exception and
  the bytes that have reached the file by then.
\<close>

type_synonym json_decoder = "string \<Rightarrow> py_error + json"
type_synonym json_encoder = "json \<Rightarrow> (py_error \<times> string) + string"

text \<open>
  A step that can raise after it has changed the state returns the exception
  together with the state at the raise, on the left.
\<close>

definition final_state :: "(py_error \<times> 'a) + 'a \<Rightarrow> 'a" where
  "final_state r = (case r of Inl (e, x) \<Rightarrow> x | Inr x \<Rightarrow> x)"

subsection \<open>Constants and helper functions of the source\<close>

definition HISTORY_FILE :: string where
  "HISTORY_FILE = ''history.json''"

definition IMAGES_DIR :: string where
  "IMAGES_DIR = ''saved_images''"

text \<open>
  \<^verbatim>\<open>load_history\<close> (lines 21 to 28): the \<^verbatim>\<open>try\<close> block opens and parses the
  document; any exception is answered with the empty list.
\<close>

definition load_history_try :: "json_decoder \<Rightarrow> fs \<Rightarrow> py_error + json" where
  "load_history_try loads d =
     (case files d HISTORY_FILE of
        None \<Rightarrow> Inl (Raised FileNotFoundError HISTORY_FILE)
      | Some doc \<Rightarrow> loads doc)"

definition load_history :: "json_decoder \<Rightarrow> fs \<Rightarrow> py_error + json" where
  "load_history loads d =
     (if os_path_exists d HISTORY_FILE then
        (case load_history_try loads d of
           Inr v \<Rightarrow> Inr v
         | Inl e \<Rightarrow> Inr (JArr []))
      else Inr (JArr []))"

text \<open>
  \<^verbatim>\<open>save_history\<close> (lines 31 to 33). The history in the session is a list of
  dictionaries. When \<^verbatim>\<open>open\<close> raises, the document is untouched. Once it is
  open it is empty; when \<^verbatim>\<open>json.dump\<close> then raises, the document holds what
  was written before the exception, which leaves the function.
\<close>

definition json_of_history :: "pydict list \<Rightarrow> json" where
  "json_of_history h = JArr (map JObj h)"

definition save_history :: "json_encoder \<Rightarrow> pydict list \<Rightarrow> fs \<Rightarrow> (py_error \<times> fs) + fs" where
  "save_history dumps h d =
     (case history_open_err d of
        Some e \<Rightarrow> Inl (e, d)
      | None \<Rightarrow>
          (case dumps (json_of_history h) of
             Inr doc \<Rightarrow> Inr (write_file HISTORY_FILE doc d)
           | Inl (e, written) \<Rightarrow> Inl (e, write_file HISTORY_FILE written d)))"

text \<open>\<^verbatim>\<open>safe_ext\<close> (lines 36 to 39).\<close>

definition safe_ext :: "string \<Rightarrow> string" where
  "safe_ext mime_type = (if mime_type = ''image/png'' then ''png'' else ''jpg'')"

text \<open>
  \<^verbatim>\<open>save_uploaded_image_locally\<close> (lines 42 to 54). The upload carries its name,
  its declared type (\<^verbatim>\<open>None\<close> or a string) and its bytes. The two strings that
  the clock and \<^verbatim>\<open>uuid4\<close> produce are inputs. \<^verbatim>\<open>os.path.join\<close> puts a slash
  between the directory and the file name.
\<close>

record uploaded_file =
  uf_name :: string
  uf_type :: "string option"
  uf_value :: string

definition mime_type_of :: "uploaded_file \<Rightarrow> string" where
  "mime_type_of f =
     (case uf_type f of
        None \<Rightarrow> ''image/jpeg''
      | Some t \<Rightarrow> (if t = [] then ''image/jpeg'' else t))"

definition save_uploaded_image_locally ::
    "string \<Rightarrow> string \<Rightarrow> uploaded_file \<Rightarrow> fs \<Rightarrow> (string \<times> string) \<times> fs" where
  "save_uploaded_image_locally time_str unique_id f d =
     (let mime_type = mime_type_of f;
          ext = safe_ext mime_type;
          filename = time_str @ ''_'' @ unique_id @ ''.'' @ ext;
          image_path = IMAGES_DIR @ ''/'' @ filename
      in ((image_path, uf_name f), write_file image_path (uf_value f) d))"

text \<open>
  \<^verbatim>\<open>delete_image_file\<close> (lines 57 to 62): the \<^verbatim>\<open>try\<close> block, then the
  \<^verbatim>\<open>except Exception: pass\<close> around it. An exception of \<^verbatim>\<open>os.remove\<close>
  leaves the disk as it was.
\<close>

definition delete_image_file_try :: "string \<Rightarrow> fs \<Rightarrow> py_error + fs" where
  "delete_image_file_try path d =
     (if path \<noteq> [] \<and> os_path_exists d path then os_remove path d else Inr d)"

definition delete_image_file :: "string \<Rightarrow> fs \<Rightarrow> py_error + fs" where
  "delete_image_file path d =
     (case delete_image_file_try path d of
        Inr d' \<Rightarrow> Inr d'
      | Inl e \<Rightarrow> Inr d)"

subsection \<open>Session state and the button handlers\<close>

text \<open>
  The state of a session: \<^verbatim>\<open>st.session_state.history\<close>,
  \<^verbatim>\<open>st.session_state.selected_history_index\<close>, the disk, and the messages
  written to the page so far. The handlers sit below line 79
  (\<^verbatim>\<open>if st.session_state.history:\<close>) and below the list comprehension of lines 80
  to 83, which indexes every item with \<^verbatim>\<open>item['time']\<close>: a run reaches them only
  with a history whose items are dictionaries, which is the type of \<open>history\<close>.
  \<^verbatim>\<open>st.rerun()\<close> restarts the script and leaves the state alone. The calls of
  \<^verbatim>\<open>save_history\<close> in the Delete and Clear All handlers stand in no
  \<^verbatim>\<open>try\<close> block: an exception of theirs leaves the handler, with the session
  state as it is at that point.
\<close>

datatype ui_msg = StError string | StSuccess string | StMarkdown string

record app_state =
  history :: "pydict list"
  selected_history_index :: "int option"
  disk :: fs
  ui :: "ui_msg list"

text \<open>
  \<^verbatim>\<open>delete_image_file(item.get("image_path", ""))\<close>. A hand-edited document can
  hold a value that is no string under \<^verbatim>\<open>image_path\<close>: it is either falsy, or
  \<^verbatim>\<open>os.path.exists\<close> or \<^verbatim>\<open>os.remove\<close> rejects it with a \<^verbatim>\<open>TypeError\<close>
  inside the \<^verbatim>\<open>try\<close> block; no file is touched in either case.
\<close>

definition delete_image_of_item :: "pydict \<Rightarrow> fs \<Rightarrow> py_error + fs" where
  "delete_image_of_item item d =
     (case dict_get item ''image_path'' (JStr '''') of
        JStr p \<Rightarrow> delete_image_file p d
      | _ \<Rightarrow> Inr d)"

text \<open>\<^verbatim>\<open>list.pop(idx)\<close> for an index within bounds.\<close>

definition list_pop :: "nat \<Rightarrow> 'a list \<Rightarrow> 'a list" where
  "list_pop i xs = take i xs @ drop (Suc i) xs"

text \<open>The Delete button (lines 103 to 111).\<close>

definition delete_button_handler ::
    "json_encoder \<Rightarrow> app_state \<Rightarrow> (py_error \<times> app_state) + app_state" where
  "delete_button_handler dumps s =
     (case selected_history_index s of
        None \<Rightarrow> Inr s
      | Some idx \<Rightarrow>
          (if 0 \<le> idx \<and> idx < int (length (history s)) then
             (case delete_image_of_item (history s ! nat idx) (disk s) of
                Inl e \<Rightarrow> Inl (e, s)
              | Inr d1 \<Rightarrow>
                  (let h1 = list_pop (nat idx) (history s)
                   in case save_history dumps h1 d1 of
                        Inl (e, d2) \<Rightarrow> Inl (e, s\<lparr>history := h1, disk := d2\<rparr>)
                      | Inr d2 \<Rightarrow>
                          Inr (s\<lparr>history := h1,
                                 disk := d2,
                                 selected_history_index := None\<rparr>)))
           else Inr s))"

text \<open>The Clear All button (lines 114 to 120): the loop over the items first.\<close>

fun delete_all_images :: "pydict list \<Rightarrow> fs \<Rightarrow> py_error + fs" where
  "delete_all_images [] d = Inr d"
| "delete_all_images (item # items) d =
     (case delete_image_of_item item d of
        Inl e \<Rightarrow> Inl e
      | Inr d1 \<Rightarrow> delete_all_images items d1)"

definition clear_all_button_handler ::
    "json_encoder \<Rightarrow> app_state \<Rightarrow> (py_error \<times> app_state) + app_state" where
  "clear_all_button_handler dumps s =
     (case delete_all_images (history s) (disk s) of
        Inl e \<Rightarrow> Inl (e, s)
      | Inr d1 \<Rightarrow>
          (case save_history dumps [] d1 of
             Inl (e, d2) \<Rightarrow> Inl (e, s\<lparr>history := [], disk := d2\<rparr>)
           | Inr d2 \<Rightarrow>
               Inr (s\<lparr>history := [],
                      disk := d2,
                      selected_history_index := None\<rparr>)))"

text \<open>
  The Estimate Artifact Age button (lines 197 to 253). What the run takes from
  outside: the key of the environment (\<^verbatim>\<open>None\<close> or a string), the two strings of
  the clock, the identifier of \<^verbatim>\<open>uuid4\<close>, and the outcome of
  \<^verbatim>\<open>client.chat.completions.create\<close>: an exception, or the \<^verbatim>\<open>message.content\<close>
  (\<^verbatim>\<open>None\<close> or a string) of each entry of \<^verbatim>\<open>response.choices\<close>.
  Building the client object (line 203) and encoding the bytes (lines 209 to 211)
  are taken not to raise. The texts of the messages are given without the emoji they
  start with.
\<close>

record analysis_inputs =
  api_key :: "string option"
  file_time_str :: string
  unique_id :: string
  create_outcome :: "py_error + string option list"
  record_time_str :: string

definition api_key_present :: "analysis_inputs \<Rightarrow> bool" where
  "api_key_present inp = (case api_key inp of None \<Rightarrow> False | Some k \<Rightarrow> k \<noteq> [])"

definition analysis_record :: "string \<Rightarrow> string \<Rightarrow> string \<Rightarrow> string \<Rightarrow> pydict" where
  "analysis_record time_str original_name saved_image_path result =
     [(''time'', JStr time_str),
      (''name'', JStr original_name),
      (''image_path'', JStr saved_image_path),
      (''result'', JStr result)]"

text \<open>
  Lines 234 to 242: \<^verbatim>\<open>history.append(record)\<close>, then \<^verbatim>\<open>save_history\<close>. When
  the save raises, the record is already in the list of the session.
\<close>

definition append_and_save ::
    "json_encoder \<Rightarrow> pydict \<Rightarrow> app_state \<Rightarrow> (py_error \<times> app_state) + app_state" where
  "append_and_save dumps r s =
     (let h1 = history s @ [r]
      in case save_history dumps h1 (disk s) of
           Inl (e, d1) \<Rightarrow> Inl (e, s\<lparr>history := h1, disk := d1\<rparr>)
         | Inr d1 \<Rightarrow> Inr (s\<lparr>history := h1, disk := d1\<rparr>))"

text \<open>
  The \<^verbatim>\<open>try\<close> block (lines 203 to 246): the exception that leaves it, if any,
  and the state at that point.
\<close>

definition analysis_try ::
    "json_encoder \<Rightarrow> analysis_inputs \<Rightarrow> uploaded_file \<Rightarrow> app_state \<Rightarrow> py_error option \<times> app_state" where
  "analysis_try dumps inp f s =
     (let ((saved_image_path, original_name), d1) =
            save_uploaded_image_locally (file_time_str inp) (unique_id inp) f (disk s);
          s1 = s\<lparr>disk := d1\<rparr>
      in case create_outcome inp of
           Inl e \<Rightarrow> (Some e, s1)
         | Inr choices \<Rightarrow>
             (case choices of
                [] \<Rightarrow> (Some (Raised IndexError ''list index out of range''), s1)
              | content # _ \<Rightarrow>
                  (let result = (case content of None \<Rightarrow> '''' | Some txt \<Rightarrow> txt)
                   in case append_and_save dumps
                             (analysis_record (record_time_str inp) original_name
                                saved_image_path result) s1 of
                        Inl (e, s2) \<Rightarrow> (Some e, s2)
                      | Inr s2 \<Rightarrow>
                          (None,
                           s2\<lparr>ui := ui s2 @
                                 [StSuccess ''Analysis Complete! Saved to History.'',
                                  StMarkdown ''---'',
                                  StMarkdown result]\<rparr>))))"

text \<open>The \<^verbatim>\<open>except\<close> clauses (lines 248 to 253), in their order.\<close>

fun error_message :: "py_error \<Rightarrow> string" where
  "error_message (Raised AuthenticationError m) = ''Invalid API key.''"
| "error_message (Raised RateLimitError m) = ''Rate limit exceeded.''"
| "error_message (Raised c m) = ''Error: '' @ m"

definition config_error_message :: string where
  "config_error_message = ''Please set OPENAI_API_KEY in your .env file!''"

definition estimate_button_handler ::
    "json_encoder \<Rightarrow> analysis_inputs \<Rightarrow> uploaded_file \<Rightarrow> app_state \<Rightarrow> app_state" where
  "estimate_button_handler dumps inp f s =
     (if \<not> api_key_present inp then s\<lparr>ui := ui s @ [StError config_error_message]\<rparr>
      else
        (case analysis_try dumps inp f s of
           (None, s1) \<Rightarrow> s1
         | (Some e, s1) \<Rightarrow> s1\<lparr>ui := ui s1 @ [StError (error_message e)]\<rparr>))"

subsection \<open>Example data\<close>

text \<open>
  Records as the application builds them, the documents that \<^verbatim>\<open>json.dump\<close>
  writes for the histories holding them, and the json library on the few documents
  of the examples.
\<close>

definition example_path :: string where
  "example_path = ''saved_images/20240101_100000_ab12cd34.jpg''"

definition second_path :: string where
  "second_path = ''saved_images/20240102_113000_0f9e8d7c.png''"

definition third_path :: string where
  "third_path = ''saved_images/20240103_090500_77aa01bc.jpg''"

definition example_record :: pydict where
  "example_record =
     analysis_record ''2024-01-01 10:00:00'' ''relic.jpg'' example_path ''1 Type: vase''"

definition second_record :: pydict where
  "second_record =
     analysis_record ''2024-01-02 11:30:00'' ''coin.png'' second_path ''1 Type: coin''"

definition third_record :: pydict where
  "third_record =
     analysis_record ''2024-01-03 09:05:00'' ''mask.jpg'' third_path ''1 Type: mask''"

definition example_document :: string where
  \<open>example_document =
     ''[\<newline>  {\<newline>    "time": "2024-01-01 10:00:00",\<newline>    "name": "relic.jpg",\<newline>    "image_path": "saved_images/20240101_100000_ab12cd34.jpg",\<newline>    "result": "1 Type: vase"\<newline>  }\<newline>]''\<close>

definition example_document2 :: string where
  \<open>example_document2 =
     ''[\<newline>  {\<newline>    "time": "2024-01-01 10:00:00",\<newline>    "name": "relic.jpg",\<newline>    "image_path": "saved_images/20240101_100000_ab12cd34.jpg",\<newline>    "result": "1 Type: vase"\<newline>  },\<newline>  {\<newline>    "time": "2024-01-02 11:30:00",\<newline>    "name": "coin.png",\<newline>    "image_path": "saved_images/20240102_113000_0f9e8d7c.png",\<newline>    "result": "1 Type: coin"\<newline>  }\<newline>]''\<close>

text \<open>
  The Python string \<^verbatim>\<open>"\ud800"\<close>: one code point, a surrogate without its
  partner, given here by the three bytes of its generalised UTF-8 form. A string of
  a record can hold it (\<^verbatim>\<open>json.loads\<close> produces it from the escape
  \<^verbatim>\<open>\ud800\<close>); the UTF-8 codec of the document refuses it with a
  \<^verbatim>\<open>UnicodeEncodeError\<close> (its message is shortened below). By then
  \<^verbatim>\<open>json.dump\<close> has written the document up to the string.
\<close>

definition lone_surrogate :: string where
  "lone_surrogate = [CHR 0xED, CHR 0xA0, CHR 0x80]"

definition surrogate_record :: pydict where
  "surrogate_record =
     analysis_record ''2024-01-01 10:00:00'' ''relic.jpg'' example_path lone_surrogate"

definition truncated_document :: string where
  \<open>truncated_document =
     ''[\<newline>  {\<newline>    "time": "2024-01-01 10:00:00",\<newline>    "name": "relic.jpg",\<newline>    "image_path": "saved_images/20240101_100000_ab12cd34.jpg",\<newline>    "result": ''\<close>

definition example_table :: "(string \<times> json) list" where
  "example_table =
     [(''[]'', JArr []),
      (''{}'', JObj []),
      (example_document, json_of_history [example_record]),
      (example_document2, json_of_history [example_record, second_record])]"

definition example_loads :: json_decoder where
  "example_loads doc =
     (case map_of example_table doc of
        Some v \<Rightarrow> Inr v
      | None \<Rightarrow> Inl (Raised JSONDecodeError ''Expecting value''))"

definition example_dumps :: json_encoder where
  "example_dumps v =
     (if v = json_of_history [surrogate_record]
      then Inl (Raised UnicodeEncodeError ''surrogates not allowed'', truncated_document)
      else
        (case map_of (map (\<lambda>(doc, w). (w, doc)) example_table) v of
           Some doc \<Rightarrow> Inr doc
         | None \<Rightarrow> Inr ''null''))"

definition example_upload :: uploaded_file where
  "example_upload = \<lparr>uf_name = ''relic.jpg'', uf_type = Some ''image/jpeg'', uf_value = ''ABC''\<rparr>"

definition empty_disk :: fs where
  "empty_disk = \<lparr>files = Map.empty, rm_err = Map.empty, history_open_err = None\<rparr>"

definition plain_disk :: fs where
  "plain_disk =
     \<lparr>files = [example_path \<mapsto> ''ABC''], rm_err = Map.empty, history_open_err = None\<rparr>"

definition locked_disk :: fs where
  "locked_disk =
     \<lparr>files = [example_path \<mapsto> ''ABC''],
      rm_err = [example_path \<mapsto> Raised PermissionError ''Permission denied''],
      history_open_err = None\<rparr>"

definition gallery_disk :: fs where
  "gallery_disk =
     \<lparr>files = [example_path \<mapsto> ''ABC'', second_path \<mapsto> ''DEF'', third_path \<mapsto> ''GHI''],
      rm_err = Map.empty, history_open_err = None\<rparr>"

definition readonly_disk :: fs where
  "readonly_disk =
     \<lparr>files = [example_path \<mapsto> ''ABC'', second_path \<mapsto> ''DEF'', third_path \<mapsto> ''GHI''],
      rm_err = Map.empty,
      history_open_err = Some (Raised PermissionError ''Permission denied'')\<rparr>"

definition example_state :: app_state where
  "example_state =
     \<lparr>history = [example_record], selected_history_index = Some 0,
      disk = plain_disk, ui = []\<rparr>"

definition locked_state :: app_state where
  "locked_state =
     \<lparr>history = [example_record], selected_history_index = Some 0,
      disk = locked_disk, ui = []\<rparr>"


definition gallery_state :: app_state where
  "gallery_state =
     \<lparr>history = [example_record, third_record, second_record],
      selected_history_index = Some 1, disk = gallery_disk, ui = []\<rparr>"

definition readonly_state :: app_state where
  "readonly_state =
     \<lparr>history = [example_record, third_record, second_record],
      selected_history_index = Some 1, disk = readonly_disk, ui = []\<rparr>"

definition example_inputs :: analysis_inputs where
  "example_inputs =
     \<lparr>api_key = Some ''sk-test'', file_time_str = ''20240101_100000'',
      unique_id = ''ab12cd34'',
      create_outcome = Inl (Raised AuthenticationError ''Incorrect API key provided''),
      record_time_str = ''2024-01-01 10:00:00''\<rparr>"

section \<open>Properties\<close>

subsection \<open>Auxiliary facts\<close>

text \<open>What \<^verbatim>\<open>delete_image_file\<close> returns, in every case.\<close>

lemma delete_image_file_total:
  "delete_image_file p d =
     Inr (if p \<noteq> [] \<and> files d p \<noteq> None \<and> rm_err d p = None
          then d\<lparr>files := (files d)(p := None)\<rparr> else d)"
  by (auto simp: delete_image_file_def delete_image_file_try_def os_path_exists_def
        os_remove_def split: option.splits)

lemma delete_image_of_item_result:
  "\<exists>d'. delete_image_of_item item d = Inr d' \<and> rm_err d' = rm_err d
      \<and> history_open_err d' = history_open_err d
      \<and> (\<forall>q. files d' q =
            (if dict_get item ''image_path'' (JStr '''') = JStr q \<and> q \<noteq> []
                  \<and> rm_err d q = None
             then None else files d q))"
  by (cases "dict_get item ''image_path'' (JStr '''')")
     (auto simp: delete_image_of_item_def delete_image_file_total)

text \<open>
  The loop of Clear All: by induction on the history, with the disk generalised,
  since every round changes it.
\<close>

lemma delete_all_images_result:
  "\<exists>d'. delete_all_images h d = Inr d' \<and> rm_err d' = rm_err d
      \<and> history_open_err d' = history_open_err d
      \<and> (\<forall>q. files d' q =
            (if (\<exists>item \<in> set h. dict_get item ''image_path'' (JStr '''') = JStr q)
                  \<and> q \<noteq> [] \<and> rm_err d q = None
             then None else files d q))"
proof (induction h arbitrary: d)
  case Nil
  show ?case by simp
next
  case (Cons item items)
  obtain d1 where d1: "delete_image_of_item item d = Inr d1" "rm_err d1 = rm_err d"
    "history_open_err d1 = history_open_err d"
    "\<And>q. files d1 q =
            (if dict_get item ''image_path'' (JStr '''') = JStr q \<and> q \<noteq> []
                  \<and> rm_err d q = None
             then None else files d q)"
    using delete_image_of_item_result [of item d] by blast
  obtain d2 where d2: "delete_all_images items d1 = Inr d2" "rm_err d2 = rm_err d1"
    "history_open_err d2 = history_open_err d1"
    "\<And>q. files d2 q =
            (if (\<exists>item \<in> set items. dict_get item ''image_path'' (JStr '''') = JStr q)
                  \<and> q \<noteq> [] \<and> rm_err d1 q = None
             then None else files d1 q)"
    using Cons.IH [of d1] by blast
  show ?case
    using d1 d2 by auto
qed

lemma list_pop_length: "i < length xs \<Longrightarrow> length (list_pop i xs) = length xs - 1"
  by (auto simp: list_pop_def)

lemma list_pop_nth:
  assumes "i < length xs" and "j < length xs - 1"
  shows "list_pop i xs ! j = xs ! (if j < i then j else Suc j)"
  using assms by (auto simp: list_pop_def nth_append min_def)

text \<open>An image is stored below \<^verbatim>\<open>saved_images/\<close>, never over the history document.\<close>

lemma image_path_not_history_file:
  "IMAGES_DIR @ CHR ''/'' # rest \<noteq> HISTORY_FILE"
  "HISTORY_FILE \<noteq> IMAGES_DIR @ CHR ''/'' # rest"
  by (simp_all add: IMAGES_DIR_def HISTORY_FILE_def)

text \<open>What a save that completes leaves in the document.\<close>

lemma save_history_completes:
  assumes "history_open_err d = None" and "dumps (json_of_history h) = Inr doc"
  shows "\<exists>d'. save_history dumps h d = Inr d' \<and> files d' HISTORY_FILE = Some doc"
  using assms by (simp add: save_history_def write_file_def)

text \<open>The handlers on the example states, by evaluation.\<close>

lemma gallery_delete_eval:
  "history (final_state (delete_button_handler example_dumps gallery_state))
     = [example_record, second_record]
   \<and> files (disk (final_state (delete_button_handler example_dumps gallery_state))) third_path
       = None
   \<and> files (disk (final_state (delete_button_handler example_dumps gallery_state))) example_path
       = Some ''ABC''"
  by (simp add: delete_button_handler_def gallery_state_def gallery_disk_def
        example_record_def second_record_def third_record_def
        analysis_record_def dict_get_def delete_image_of_item_def delete_image_file_def
        delete_image_file_try_def os_path_exists_def os_remove_def list_pop_def
        save_history_def write_file_def example_path_def second_path_def third_path_def
        HISTORY_FILE_def Let_def final_state_def
        example_dumps_def example_table_def json_of_history_def surrogate_record_def
        example_document_def example_document2_def)

lemma readonly_delete_eval:
  "delete_button_handler example_dumps readonly_state
     = Inl (Raised PermissionError ''Permission denied'',
            final_state (delete_button_handler example_dumps readonly_state))
   \<and> history (final_state (delete_button_handler example_dumps readonly_state))
       = [example_record, second_record]
   \<and> files (disk (final_state (delete_button_handler example_dumps readonly_state))) third_path
       = None
   \<and> files (disk (final_state (delete_button_handler example_dumps readonly_state))) HISTORY_FILE
       = None"
  by (simp add: delete_button_handler_def readonly_state_def readonly_disk_def
        example_record_def second_record_def third_record_def
        analysis_record_def dict_get_def delete_image_of_item_def delete_image_file_def
        delete_image_file_try_def os_path_exists_def os_remove_def list_pop_def
        save_history_def write_file_def example_path_def second_path_def third_path_def
        HISTORY_FILE_def Let_def final_state_def)

lemma readonly_clear_eval:
  "clear_all_button_handler example_dumps readonly_state
     = Inl (Raised PermissionError ''Permission denied'',
            final_state (clear_all_button_handler example_dumps readonly_state))
   \<and> history (final_state (clear_all_button_handler example_dumps readonly_state)) = []
   \<and> files (disk (final_state (clear_all_button_handler example_dumps readonly_state))) third_path
       = None
   \<and> files (disk (final_state (clear_all_button_handler example_dumps readonly_state))) HISTORY_FILE
       = None"
  by (simp add: clear_all_button_handler_def readonly_state_def readonly_disk_def
        example_record_def second_record_def third_record_def
        analysis_record_def dict_get_def delete_image_of_item_def delete_image_file_def
        delete_image_file_try_def os_path_exists_def os_remove_def
        save_history_def write_file_def example_path_def second_path_def third_path_def
        HISTORY_FILE_def Let_def final_state_def)

subsection \<open>The history document\<close>




text \<open>
  C2. Whether the history document is absent, or present and rejected by the parser,
  \<^verbatim>\<open>load_history\<close> returns the empty list; it returns, and raises nothing.
\<close>

theorem load_history_missing_or_corrupt:
  assumes "files d HISTORY_FILE = None
           \<or> (\<exists>doc e. files d HISTORY_FILE = Some doc \<and> loads doc = Inl e)"
  shows "load_history loads d = Inr (JArr [])"
  using assms
  by (auto simp: load_history_def load_history_try_def os_path_exists_def)

theorem load_history_missing_or_corrupt_witness:
  "load_history example_loads empty_disk = Inr (JArr [])
   \<and> load_history example_loads (empty_disk\<lparr>files := [HISTORY_FILE \<mapsto> ''[{'']\<rparr>)
       = Inr (JArr [])"
proof -
  have a: "files empty_disk HISTORY_FILE = None"
    by (simp add: empty_disk_def)
  have b: "\<exists>doc e. files (empty_disk\<lparr>files := [HISTORY_FILE \<mapsto> ''[{'']\<rparr>) HISTORY_FILE
             = Some doc \<and> example_loads doc = Inl e"
    by (simp add: example_loads_def example_table_def example_document_def
          example_document2_def)
  show ?thesis
    using load_history_missing_or_corrupt [of _ example_loads, OF disjI1, OF a]
      load_history_missing_or_corrupt [of _ example_loads, OF disjI2, OF b]
    by simp
qed



subsection \<open>The image files\<close>

text \<open>
  C3. For every declared MIME type, the extension chosen when saving an image is
  \<open>png\<close> exactly when the type is \<open>image/png\<close>, and \<open>jpg\<close> for every other type:
  for \<^verbatim>\<open>safe_ext\<close> itself, and for the path under which
  \<^verbatim>\<open>save_uploaded_image_locally\<close> stores an upload that declares the type.
\<close>

theorem safe_ext_png_iff:
  "(safe_ext m = ''png'') = (m = ''image/png'')
   \<and> safe_ext m = (if m = ''image/png'' then ''png'' else ''jpg'')
   \<and> fst (fst (save_uploaded_image_locally t u (f\<lparr>uf_type := Some m\<rparr>) d))
       = IMAGES_DIR @ ''/'' @ t @ ''_'' @ u @ ''.''
           @ (if m = ''image/png'' then ''png'' else ''jpg'')"
  by (simp add: safe_ext_def save_uploaded_image_locally_def mime_type_of_def Let_def)

text \<open>
  C8. For every path and every disk, \<^verbatim>\<open>delete_image_file\<close> returns and raises
  nothing. When the path is not empty, the file exists and \<^verbatim>\<open>os.remove\<close> does not
  fail on it, the file is gone afterwards and no other file is touched; when the path
  is empty, the file is absent, or the removal fails, the disk is as before.
\<close>

theorem delete_image_file_never_raises:
  "\<exists>d'. delete_image_file p d = Inr d'
      \<and> (p \<noteq> [] \<and> files d p \<noteq> None \<and> rm_err d p = None
           \<longrightarrow> files d' p = None \<and> (\<forall>q. q \<noteq> p \<longrightarrow> files d' q = files d q))
      \<and> (p = [] \<or> files d p = None \<or> rm_err d p \<noteq> None \<longrightarrow> d' = d)"
  by (auto simp: delete_image_file_total)

theorem delete_image_file_never_raises_witness:
  "(\<exists>d'. delete_image_file example_path plain_disk = Inr d' \<and> files d' example_path = None)
   \<and> delete_image_file example_path locked_disk = Inr locked_disk
   \<and> delete_image_file [] plain_disk = Inr plain_disk
   \<and> delete_image_file ''saved_images/gone.png'' plain_disk = Inr plain_disk"
  using delete_image_file_never_raises [of example_path plain_disk]
    delete_image_file_never_raises [of example_path locked_disk]
    delete_image_file_never_raises [of "[]" plain_disk]
    delete_image_file_never_raises [of "''saved_images/gone.png''" plain_disk]
  by (auto simp: plain_disk_def locked_disk_def example_path_def)

subsection \<open>Delete and Clear All\<close>

text \<open>
  C4, as the source has it. For every history of N records and every selected index
  \<open>i\<close> with \<open>0 \<le> i < N\<close>, the Delete handler first deletes the image of the record
  at \<open>i\<close>: on the disk \<open>d1\<close> that this step leaves, the file at that record's
  \<open>image_path\<close> (a string that is not empty) is gone if \<^verbatim>\<open>os.remove\<close> does not
  fail on it; if it fails, the failure is swallowed and the file is as before. The
  session is left with N - 1 records, the one at \<open>i\<close> taken out and the others in
  their order, whether or not the save that follows raises. The save works on
  \<open>d1\<close>: when it completes, the handler returns and the document holds the new
  history; when it raises, the exception leaves the handler.
\<close>

theorem delete_within_bounds:
  assumes "selected_history_index s = Some i" and "0 \<le> i" and "i < int (length (history s))"
  shows "\<exists>d1 s'.
        delete_image_of_item (history s ! nat i) (disk s) = Inr d1
      \<and> (\<forall>p. dict_get (history s ! nat i) ''image_path'' (JStr '''') = JStr p \<and> p \<noteq> []
             \<longrightarrow> files d1 p = (if rm_err (disk s) p = None then None else files (disk s) p))
      \<and> final_state (delete_button_handler dumps s) = s'
      \<and> length (history s') = length (history s) - 1
      \<and> history s' = take (nat i) (history s) @ drop (Suc (nat i)) (history s)
      \<and> (\<forall>j < length (history s) - 1.
            history s' ! j = history s ! (if j < nat i then j else Suc j))
      \<and> (case save_history dumps (history s') d1 of
            Inr d2 \<Rightarrow> delete_button_handler dumps s = Inr s' \<and> disk s' = d2
                       \<and> selected_history_index s' = None
          | Inl (e, d2) \<Rightarrow> delete_button_handler dumps s = Inl (e, s') \<and> disk s' = d2)
      \<and> (\<forall>doc. history_open_err (disk s) = None
                 \<and> dumps (json_of_history (history s')) = Inr doc
             \<longrightarrow> delete_button_handler dumps s = Inr s'
                 \<and> files (disk s') HISTORY_FILE = Some doc)"
proof -
  obtain d1 where d1: "delete_image_of_item (history s ! nat i) (disk s) = Inr d1"
    "history_open_err d1 = history_open_err (disk s)"
    "\<And>q. files d1 q =
            (if dict_get (history s ! nat i) ''image_path'' (JStr '''') = JStr q \<and> q \<noteq> []
                  \<and> rm_err (disk s) q = None
             then None else files (disk s) q)"
    using delete_image_of_item_result [of "history s ! nat i" "disk s"] by blast
  define h1 where "h1 = list_pop (nat i) (history s)"
  define s' where "s' = final_state (delete_button_handler dumps s)"
  have inb: "nat i < length (history s)"
    using assms by simp
  have run: "delete_button_handler dumps s =
      (case save_history dumps h1 d1 of
         Inl (e, d2) \<Rightarrow> Inl (e, s\<lparr>history := h1, disk := d2\<rparr>)
       | Inr d2 \<Rightarrow> Inr (s\<lparr>history := h1, disk := d2, selected_history_index := None\<rparr>))"
    unfolding h1_def using assms d1(1) by (simp add: delete_button_handler_def Let_def)
  have hist: "history s' = h1"
    unfolding s'_def run by (simp add: final_state_def split: sum.splits prod.splits)
  have len: "length h1 = length (history s) - 1"
    unfolding h1_def using inb by (rule list_pop_length)
  have nth: "\<forall>j < length (history s) - 1. h1 ! j = history s ! (if j < nat i then j else Suc j)"
    unfolding h1_def using inb by (simp add: list_pop_nth)
  have shape: "h1 = take (nat i) (history s) @ drop (Suc (nat i)) (history s)"
    by (simp add: h1_def list_pop_def)
  have outcome: "(case save_history dumps h1 d1 of
            Inr d2 \<Rightarrow> delete_button_handler dumps s = Inr s' \<and> disk s' = d2
                       \<and> selected_history_index s' = None
          | Inl (e, d2) \<Rightarrow> delete_button_handler dumps s = Inl (e, s') \<and> disk s' = d2)"
    unfolding s'_def run by (simp add: final_state_def split: sum.splits prod.splits)
  have completed: "delete_button_handler dumps s = Inr s' \<and> files (disk s') HISTORY_FILE = Some doc"
    if w: "history_open_err (disk s) = None" and e: "dumps (json_of_history h1) = Inr doc"
    for doc
  proof -
    obtain d2 where d2: "save_history dumps h1 d1 = Inr d2" "files d2 HISTORY_FILE = Some doc"
      using save_history_completes [of d1 dumps h1 doc] w e d1(2) by auto
    show ?thesis
      using outcome d2 by simp
  qed
  show ?thesis
    using d1(1,3) hist len nth shape outcome completed s'_def by auto
qed

text \<open>
  Deleting the middle one of three records: once with a document that can be
  written, once with a read-only document, where the exception of the save leaves the
  handler after the image and the record are gone.
\<close>

theorem delete_within_bounds_witness:
  "(\<exists>s'. delete_button_handler example_dumps gallery_state = Inr s'
      \<and> history s' = [example_record, second_record]
      \<and> files (disk s') HISTORY_FILE = Some example_document2
      \<and> files (disk s') third_path = None
      \<and> files (disk s') example_path = Some ''ABC'')
   \<and> (\<exists>s'. delete_button_handler example_dumps readonly_state
              = Inl (Raised PermissionError ''Permission denied'', s')
      \<and> history s' = [example_record, second_record]
      \<and> files (disk s') third_path = None
      \<and> files (disk s') HISTORY_FILE = None)"
proof -
  have a: "selected_history_index gallery_state = Some 1" "(0::int) \<le> 1"
    "1 < int (length (history gallery_state))"
    by (simp_all add: gallery_state_def)
  have e: "example_dumps (json_of_history [example_record, second_record]) = Inr example_document2"
    by (simp add: example_dumps_def example_table_def json_of_history_def
          example_record_def second_record_def surrogate_record_def analysis_record_def
          example_document_def example_document2_def)
  have w: "history_open_err (disk gallery_state) = None"
    by (simp add: gallery_state_def gallery_disk_def)
  from delete_within_bounds [OF a, of example_dumps]
  obtain s' where s': "final_state (delete_button_handler example_dumps gallery_state) = s'"
    "history s' = take (nat 1) (history gallery_state) @ drop (Suc (nat 1)) (history gallery_state)"
    "\<forall>doc. history_open_err (disk gallery_state) = None
                 \<and> example_dumps (json_of_history (history s')) = Inr doc
             \<longrightarrow> delete_button_handler example_dumps gallery_state = Inr s'
                 \<and> files (disk s') HISTORY_FILE = Some doc"
    by blast
  have h: "history s' = [example_record, second_record]"
    using s'(2) by (simp add: gallery_state_def)
  have first: "\<exists>s'. delete_button_handler example_dumps gallery_state = Inr s'
      \<and> history s' = [example_record, second_record]
      \<and> files (disk s') HISTORY_FILE = Some example_document2
      \<and> files (disk s') third_path = None
      \<and> files (disk s') example_path = Some ''ABC''"
    using s'(1,3) h e w gallery_delete_eval by auto
  have second: "\<exists>s'. delete_button_handler example_dumps readonly_state
              = Inl (Raised PermissionError ''Permission denied'', s')
      \<and> history s' = [example_record, second_record]
      \<and> files (disk s') third_path = None
      \<and> files (disk s') HISTORY_FILE = None"
    using readonly_delete_eval by blast
  show ?thesis
    using first second by simp
qed

text \<open>
  The wording of C4 in the specification, that the image file is removed whenever
  the index is within bounds, fails where the removal fails: with one record whose
  image \<^verbatim>\<open>os.remove\<close> refuses to remove, Delete returns, the history is empty,
  and the file is still on the disk.
\<close>

theorem delete_keeps_locked_file:
  "\<not> isl (delete_button_handler example_dumps locked_state)
   \<and> history (projr (delete_button_handler example_dumps locked_state)) = []
   \<and> files (disk (projr (delete_button_handler example_dumps locked_state))) example_path
       = Some ''ABC''"
  by (simp add: delete_button_handler_def locked_state_def locked_disk_def example_record_def
        analysis_record_def dict_get_def delete_image_of_item_def delete_image_file_def
        delete_image_file_try_def os_path_exists_def os_remove_def list_pop_def
        save_history_def write_file_def example_path_def HISTORY_FILE_def Let_def
        example_dumps_def example_table_def json_of_history_def surrogate_record_def)

text \<open>
  C5. For every history of N records, when no index is selected or the selected
  index is negative or at least N, the Delete handler returns the state it was given:
  the history, the document and every file are as before.
\<close>

theorem delete_out_of_bounds_noop:
  assumes "selected_history_index s = None
           \<or> (\<exists>i. selected_history_index s = Some i
                  \<and> (i < 0 \<or> int (length (history s)) \<le> i))"
  shows "delete_button_handler dumps s = Inr s"
  using assms by (auto simp: delete_button_handler_def)

theorem delete_out_of_bounds_noop_witness:
  "delete_button_handler example_dumps (example_state\<lparr>selected_history_index := None\<rparr>)
     = Inr (example_state\<lparr>selected_history_index := None\<rparr>)
   \<and> delete_button_handler example_dumps (example_state\<lparr>selected_history_index := Some (- 1)\<rparr>)
     = Inr (example_state\<lparr>selected_history_index := Some (- 1)\<rparr>)
   \<and> delete_button_handler example_dumps (example_state\<lparr>selected_history_index := Some 1\<rparr>)
     = Inr (example_state\<lparr>selected_history_index := Some 1\<rparr>)"
  using delete_out_of_bounds_noop
      [of "example_state\<lparr>selected_history_index := None\<rparr>" example_dumps]
    delete_out_of_bounds_noop
      [of "example_state\<lparr>selected_history_index := Some (- 1)\<rparr>" example_dumps]
    delete_out_of_bounds_noop
      [of "example_state\<lparr>selected_history_index := Some 1\<rparr>" example_dumps]
  by (simp add: example_state_def)

text \<open>
  C6, as the source has it. For every history, the Clear All handler first deletes
  the images: on the disk \<open>d1\<close> that the loop leaves, for every record of the
  history the file at its \<open>image_path\<close> (a string that is not empty) is gone if
  \<^verbatim>\<open>os.remove\<close> does not fail on it; if it fails, the failure is swallowed and the
  file is as before. The session is left with no record, whether or not the save that
  follows raises. The save works on \<open>d1\<close>: when it completes, the handler returns
  and the document holds the empty list; when it raises, the exception leaves the
  handler.
\<close>

theorem clear_all_result:
  "\<exists>d1 s'.
        delete_all_images (history s) (disk s) = Inr d1
      \<and> (\<forall>item \<in> set (history s). \<forall>p.
            dict_get item ''image_path'' (JStr '''') = JStr p \<and> p \<noteq> []
            \<longrightarrow> files d1 p = (if rm_err (disk s) p = None then None else files (disk s) p))
      \<and> final_state (clear_all_button_handler dumps s) = s'
      \<and> history s' = []
      \<and> (case save_history dumps [] d1 of
            Inr d2 \<Rightarrow> clear_all_button_handler dumps s = Inr s' \<and> disk s' = d2
                       \<and> selected_history_index s' = None
          | Inl (e, d2) \<Rightarrow> clear_all_button_handler dumps s = Inl (e, s') \<and> disk s' = d2)
      \<and> (\<forall>doc. history_open_err (disk s) = None \<and> dumps (JArr []) = Inr doc
             \<longrightarrow> clear_all_button_handler dumps s = Inr s'
                 \<and> files (disk s') HISTORY_FILE = Some doc)"
proof -
  obtain d1 where d1: "delete_all_images (history s) (disk s) = Inr d1"
    "history_open_err d1 = history_open_err (disk s)"
    "\<And>q. files d1 q =
            (if (\<exists>item \<in> set (history s). dict_get item ''image_path'' (JStr '''') = JStr q)
                  \<and> q \<noteq> [] \<and> rm_err (disk s) q = None
             then None else files (disk s) q)"
    using delete_all_images_result [of "history s" "disk s"] by blast
  define s' where "s' = final_state (clear_all_button_handler dumps s)"
  have run: "clear_all_button_handler dumps s =
      (case save_history dumps [] d1 of
         Inl (e, d2) \<Rightarrow> Inl (e, s\<lparr>history := [], disk := d2\<rparr>)
       | Inr d2 \<Rightarrow> Inr (s\<lparr>history := [], disk := d2, selected_history_index := None\<rparr>))"
    using d1(1) by (simp add: clear_all_button_handler_def)
  have hist: "history s' = []"
    unfolding s'_def run by (simp add: final_state_def split: sum.splits prod.splits)
  have outcome: "(case save_history dumps [] d1 of
            Inr d2 \<Rightarrow> clear_all_button_handler dumps s = Inr s' \<and> disk s' = d2
                       \<and> selected_history_index s' = None
          | Inl (e, d2) \<Rightarrow> clear_all_button_handler dumps s = Inl (e, s') \<and> disk s' = d2)"
    unfolding s'_def run by (simp add: final_state_def split: sum.splits prod.splits)
  have completed: "clear_all_button_handler dumps s = Inr s'
      \<and> files (disk s') HISTORY_FILE = Some doc"
    if w: "history_open_err (disk s) = None" and e: "dumps (JArr []) = Inr doc" for doc
  proof -
    have "dumps (json_of_history []) = Inr doc"
      using e by (simp add: json_of_history_def)
    then obtain d2 where d2: "save_history dumps [] d1 = Inr d2"
      "files d2 HISTORY_FILE = Some doc"
      using save_history_completes [of d1 dumps "[]" doc] w d1(2) by auto
    show ?thesis
      using outcome d2 by simp
  qed
  have removed: "\<forall>item \<in> set (history s). \<forall>p.
            dict_get item ''image_path'' (JStr '''') = JStr p \<and> p \<noteq> []
            \<longrightarrow> files d1 p = (if rm_err (disk s) p = None then None else files (disk s) p)"
    using d1(3) by auto
  show ?thesis
    using d1(1) removed hist outcome completed s'_def by blast
qed

text \<open>
  Clearing a history of three records: once with a document that can be written,
  once with a read-only document, where the exception of the save leaves the handler
  after the images and the records are gone.
\<close>

theorem clear_all_result_witness:
  "(\<exists>d1 s'. delete_all_images (history gallery_state) (disk gallery_state) = Inr d1
      \<and> files d1 example_path = None \<and> files d1 second_path = None
      \<and> files d1 third_path = None
      \<and> clear_all_button_handler example_dumps gallery_state = Inr s'
      \<and> history s' = []
      \<and> files (disk s') HISTORY_FILE = Some ''[]'')
   \<and> (\<exists>s'. clear_all_button_handler example_dumps readonly_state
              = Inl (Raised PermissionError ''Permission denied'', s')
      \<and> history s' = []
      \<and> files (disk s') third_path = None
      \<and> files (disk s') HISTORY_FILE = None)"
proof -
  have e: "example_dumps (JArr []) = Inr ''[]''"
    by (simp add: example_dumps_def example_table_def json_of_history_def)
  have w: "history_open_err (disk gallery_state) = None"
    "rm_err (disk gallery_state) = Map.empty"
    by (simp_all add: gallery_state_def gallery_disk_def)
  have p: "dict_get example_record ''image_path'' (JStr '''') = JStr example_path"
    "dict_get second_record ''image_path'' (JStr '''') = JStr second_path"
    "dict_get third_record ''image_path'' (JStr '''') = JStr third_path"
    by (simp_all add: example_record_def second_record_def third_record_def
          analysis_record_def dict_get_def)
  have n: "example_path \<noteq> []" "second_path \<noteq> []" "third_path \<noteq> []"
    by (simp_all add: example_path_def second_path_def third_path_def)
  have m: "example_record \<in> set (history gallery_state)"
    "second_record \<in> set (history gallery_state)"
    "third_record \<in> set (history gallery_state)"
    by (simp_all add: gallery_state_def)
  from clear_all_result [of gallery_state example_dumps]
  obtain d1 s' where r: "delete_all_images (history gallery_state) (disk gallery_state) = Inr d1"
    "\<forall>item \<in> set (history gallery_state). \<forall>p.
            dict_get item ''image_path'' (JStr '''') = JStr p \<and> p \<noteq> []
            \<longrightarrow> files d1 p = (if rm_err (disk gallery_state) p = None then None
                               else files (disk gallery_state) p)"
    "history s' = []"
    "\<forall>doc. history_open_err (disk gallery_state) = None \<and> example_dumps (JArr []) = Inr doc
             \<longrightarrow> clear_all_button_handler example_dumps gallery_state = Inr s'
                 \<and> files (disk s') HISTORY_FILE = Some doc"
    by blast
  have "files d1 example_path = None" "files d1 second_path = None" "files d1 third_path = None"
    using r(2) m p n w(2) by auto
  then have first: "\<exists>d1 s'. delete_all_images (history gallery_state) (disk gallery_state) = Inr d1
      \<and> files d1 example_path = None \<and> files d1 second_path = None
      \<and> files d1 third_path = None
      \<and> clear_all_button_handler example_dumps gallery_state = Inr s'
      \<and> history s' = []
      \<and> files (disk s') HISTORY_FILE = Some ''[]''"
    using r(1,3,4) e w(1) by auto
  have second: "\<exists>s'. clear_all_button_handler example_dumps readonly_state
              = Inl (Raised PermissionError ''Permission denied'', s')
      \<and> history s' = []
      \<and> files (disk s') third_path = None
      \<and> files (disk s') HISTORY_FILE = None"
    using readonly_clear_eval by blast
  show ?thesis
    using first second by simp
qed

text \<open>
  The wording of C6 in the specification, that every referenced image file is
  deleted, fails where a removal fails: with one record whose image
  \<^verbatim>\<open>os.remove\<close> refuses to remove, Clear All returns, the history is empty, and
  the file that the record referenced is still on the disk.
\<close>

theorem clear_all_keeps_locked_file:
  "\<not> isl (clear_all_button_handler example_dumps locked_state)
   \<and> history (projr (clear_all_button_handler example_dumps locked_state)) = []
   \<and> files (disk (projr (clear_all_button_handler example_dumps locked_state))) example_path
       = Some ''ABC''"
  by (simp add: clear_all_button_handler_def locked_state_def locked_disk_def example_record_def
        analysis_record_def dict_get_def delete_image_of_item_def delete_image_file_def
        delete_image_file_try_def os_path_exists_def os_remove_def
        save_history_def write_file_def example_path_def HISTORY_FILE_def Let_def
        example_dumps_def example_table_def json_of_history_def surrogate_record_def)

subsection \<open>Estimate Artifact Age\<close>

text \<open>
  C7. When the key is set and the call to the provider raises an authentication
  error, no record is appended: the history, and so its length, is as before, and the
  history document is not rewritten. The message shown is the one for an invalid key,
  which differs from the message for a missing key and from the message for every
  other exception.
\<close>

theorem authentication_failure_appends_nothing:
  assumes "api_key_present inp"
    and "create_outcome inp = Inl (Raised AuthenticationError m)"
  shows "history (estimate_button_handler dumps inp f s) = history s
       \<and> length (history (estimate_button_handler dumps inp f s)) = length (history s)
       \<and> files (disk (estimate_button_handler dumps inp f s)) HISTORY_FILE
           = files (disk s) HISTORY_FILE
       \<and> ui (estimate_button_handler dumps inp f s) = ui s @ [StError ''Invalid API key.'']
       \<and> ''Invalid API key.'' \<noteq> config_error_message
       \<and> (\<forall>c m'. c \<noteq> AuthenticationError
             \<longrightarrow> error_message (Raised c m') \<noteq> ''Invalid API key.'')"
proof -
  have distinct: "c \<noteq> AuthenticationError \<Longrightarrow> error_message (Raised c m') \<noteq> ''Invalid API key.''"
    for c m'
    by (cases c) simp_all
  have run: "estimate_button_handler dumps inp f s
      = (let d1 = snd (save_uploaded_image_locally (file_time_str inp) (unique_id inp) f (disk s))
         in s\<lparr>disk := d1, ui := ui s @ [StError ''Invalid API key.'']\<rparr>)"
    using assms
    by (simp add: estimate_button_handler_def analysis_try_def Let_def split: prod.splits)
  have doc: "files (snd (save_uploaded_image_locally t u f d)) HISTORY_FILE = files d HISTORY_FILE"
    for t u d
    by (simp add: save_uploaded_image_locally_def write_file_def Let_def
          image_path_not_history_file)
  show ?thesis
    using distinct by (simp add: run doc Let_def config_error_message_def)
qed

theorem authentication_failure_appends_nothing_witness:
  "history (estimate_button_handler example_dumps example_inputs example_upload example_state)
     = [example_record]
   \<and> ui (estimate_button_handler example_dumps example_inputs example_upload example_state)
     = [StError ''Invalid API key.'']"
  using authentication_failure_appends_nothing
    [of example_inputs "''Incorrect API key provided''" example_dumps example_upload example_state]
  by (simp add: example_inputs_def api_key_present_def example_state_def)

text \<open>
  C9. When the key is absent (\<^verbatim>\<open>None\<close> or the empty string), the handler only
  adds the message about the configuration: the disk is as before, so no image is
  written and the document is not rewritten, and the history is as before.
\<close>

theorem estimate_without_key:
  assumes "api_key inp = None \<or> api_key inp = Some []"
  shows "estimate_button_handler dumps inp f s
           = s\<lparr>ui := ui s @ [StError config_error_message]\<rparr>
       \<and> disk (estimate_button_handler dumps inp f s) = disk s
       \<and> history (estimate_button_handler dumps inp f s) = history s"
  using assms by (auto simp: estimate_button_handler_def api_key_present_def)

theorem estimate_without_key_witness:
  "estimate_button_handler example_dumps (example_inputs\<lparr>api_key := None\<rparr>) example_upload
       example_state
     = example_state\<lparr>ui := [StError config_error_message]\<rparr>
   \<and> estimate_button_handler example_dumps (example_inputs\<lparr>api_key := Some []\<rparr>) example_upload
       example_state
     = example_state\<lparr>ui := [StError config_error_message]\<rparr>"
  using estimate_without_key
      [of "example_inputs\<lparr>api_key := None\<rparr>" example_dumps example_upload example_state]
    estimate_without_key
      [of "example_inputs\<lparr>api_key := Some []\<rparr>" example_dumps example_upload example_state]
  by (simp add: example_state_def)

end
